theory Spec2Isabelle
  imports Complex_Main
begin

section \<open>Values and strings\<close>

text \<open>
  Fields that the TypeScript interfaces type as \<open>any\<close> are only ever tested for
  truthiness or compared with a string literal by the scoring engine. \<open>jsval\<close> keeps what
  these tests can observe; objects and arrays are opaque (always truthy).
\<close>

datatype jsval = JNull | JBool bool | JNum rat | JStr string | JObj | JArr

fun truthy :: "jsval \<Rightarrow> bool" where
  "truthy JNull = False"
| "truthy (JBool b) = b"
| "truthy (JNum n) = (n \<noteq> 0)"
| "truthy (JStr s) = (s \<noteq> [])"
| "truthy JObj = True"
| "truthy JArr = True"

text \<open>Reading an optional property: an absent property reads as \<open>undefined\<close>, which is falsy.\<close>

definition present :: "jsval option \<Rightarrow> bool" where
  "present v = (case v of None \<Rightarrow> False | Some x \<Rightarrow> truthy x)"

text \<open>Truthiness of an optional string property (\<open>!operation.summary\<close>).\<close>

definition nonempty :: "string option \<Rightarrow> bool" where
  "nonempty v = (case v of None \<Rightarrow> False | Some s \<Rightarrow> s \<noteq> [])"

definition startsWith :: "string \<Rightarrow> string \<Rightarrow> bool" where
  "startsWith s p = (take (length p) s = p)"

definition endsWith :: "string \<Rightarrow> string \<Rightarrow> bool" where
  "endsWith s p = (length p \<le> length s \<and> drop (length s - length p) s = p)"

definition includesChar :: "string \<Rightarrow> char \<Rightarrow> bool" where
  "includesChar s c = (c \<in> set s)"

text \<open>\<open>s.split('/')\<close>: always at least one piece; empty pieces are kept.\<close>

fun split :: "char \<Rightarrow> string \<Rightarrow> string list" where
  "split c [] = [[]]"
| "split c (x # xs) =
     (if x = c then [] # split c xs
      else (case split c xs of [] \<Rightarrow> [[x]] | y # ys \<Rightarrow> (x # y) # ys))"

text \<open>The double-quote character of the message templates.\<close>

definition dquote :: string where
  "dquote = [CHR 0x22]"

text \<open>Decimal rendering of a count inside a template string.\<close>

definition digit :: "nat \<Rightarrow> char" where
  "digit d = char_of (48 + d)"

fun showNat :: "nat \<Rightarrow> string" where
  "showNat n = (if n < 10 then [digit n] else showNat (n div 10) @ [digit (n mod 10)])"

declare showNat.simps [simp del]

section \<open>Data model (types/index.ts)\<close>

datatype Severity = Low | Medium | High | Critical

record Issue =
  path :: string
  operation :: "string option"
  location :: string
  description :: string
  severity :: Severity
  suggestion :: string
  criterion :: string

record ScoreResult =
  res_criterion :: string
  res_score :: rat
  maxScore :: rat
  weight :: rat
  weightedScore :: rat
  issues :: "Issue list"

datatype Grade = A | B | C | D | F

text \<open>
  The document. Optional properties are \<open>option\<close>s. \<open>info\<close> and \<open>paths\<close> are required by the
  interface, but the engine itself reads them as possibly absent (\<open>spec.info?.title\<close>,
  \<open>spec.paths || {}\<close>), so they are optional here too. Mappings are association lists in
  \<open>Object.entries\<close> order. Entries typed \<open>any\<close> that the engine dereferences may be \<open>null\<close>
  (\<open>None\<close> inside the list): schema definitions, parameters, responses, media types.
  The global \<open>security\<close> array is \<open>globalSecurity\<close>, an operation's is \<open>op_security\<close>.
\<close>

record Info =
  title :: string
  version :: string
  info_description :: "string option"

record Server =
  url :: string

record Tag =
  tag_name :: string

record Schema =
  schema_type :: "jsval option"
  schema_ref :: "jsval option"
  allOf :: "jsval option"
  oneOf :: "jsval option"
  anyOf :: "jsval option"
  properties :: "jsval option"
  additionalProperties :: "jsval option"

record MediaType =
  mt_schema :: "jsval option"
  mt_example :: "jsval option"
  mt_examples :: "jsval option"

text \<open>A request body or a response: what \<open>hasSchemaReference\<close> and \<open>hasExamplesInContent\<close> read.\<close>

record ContentObject =
  co_schema :: "jsval option"
  co_example :: "jsval option"
  co_examples :: "jsval option"
  content :: "(string \<times> MediaType option) list option"

record Parameter =
  param_name :: "string option"
  param_description :: "jsval option"

record Operation =
  op_tags :: "string list option"
  summary :: "string option"
  op_description :: "string option"
  parameters :: "Parameter option list option"
  requestBody :: "ContentObject option"
  responses :: "(string \<times> ContentObject option) list option"
  op_security :: "(string \<times> string list) list list option"

record PathItem =
  get_op :: "Operation option"
  put_op :: "Operation option"
  post_op :: "Operation option"
  delete_op :: "Operation option"
  options_op :: "Operation option"
  head_op :: "Operation option"
  patch_op :: "Operation option"
  trace_op :: "Operation option"

record Components =
  schemas :: "(string \<times> Schema option) list option"
  securitySchemes :: "(string \<times> jsval) list option"

record OpenAPISpec =
  openapi :: string
  info :: "Info option"
  servers :: "Server list option"
  paths :: "(string \<times> PathItem) list option"
  components :: "Components option"
  globalSecurity :: "(string \<times> string list) list list option"
  tags :: "Tag list option"

record ScoringCriteria =
  c_name :: string
  c_weight :: rat
  c_maxScore :: rat

record Weights =
  schemaTypes :: rat
  documentation :: rat
  pathsOperations :: rat
  responseCodes :: rat
  examples :: rat
  security :: rat
  bestPractices :: rat

record ScoringConfig =
  criteria :: "ScoringCriteria list"
  weights :: Weights

record Summary =
  criticalIssues :: nat
  highIssues :: nat
  mediumIssues :: nat
  lowIssues :: nat

record SpecInfo =
  si_title :: string
  si_version :: string
  pathCount :: nat
  operationCount :: nat

record ScoringReport =
  overallScore :: rat
  grade :: Grade
  rep_maxScore :: rat
  results :: "ScoreResult list"
  totalIssues :: nat
  summary_counts :: Summary
  timestamp :: string
  specInfo :: SpecInfo

text \<open>A property read on \<open>null\<close> or \<open>undefined\<close> throws; it is the only exception of the engine.\<close>

datatype error = TypeError

definition bindE :: "error + 'a \<Rightarrow> ('a \<Rightarrow> error + 'b) \<Rightarrow> error + 'b" where
  "bindE m f = (case m of Inl e \<Rightarrow> Inl e | Inr x \<Rightarrow> f x)"

text \<open>
  A \<open>for\<close> loop whose body pushes issues and may throw: the issues of all iterations in
  order, or the first exception.
\<close>

fun collect :: "('a \<Rightarrow> error + Issue list) \<Rightarrow> 'a list \<Rightarrow> error + Issue list" where
  "collect f [] = Inr []"
| "collect f (x # xs) =
     (case f x of Inl e \<Rightarrow> Inl e
      | Inr a \<Rightarrow> (case collect f xs of Inl e \<Rightarrow> Inl e | Inr b \<Rightarrow> Inr (a @ b)))"

section \<open>Deduction and grade\<close>

text \<open>\<open>calculateDeduction\<close>: a left fold over the issues, starting from 0.\<close>

definition penalty :: "Severity \<Rightarrow> rat" where
  "penalty s = (case s of Critical \<Rightarrow> 5 | High \<Rightarrow> 3 | Medium \<Rightarrow> 2 | Low \<Rightarrow> 1)"

definition calculateDeduction :: "Issue list \<Rightarrow> rat" where
  "calculateDeduction iss = foldl (\<lambda>sum issue. sum + penalty (severity issue)) 0 iss"

definition calculateGrade :: "rat \<Rightarrow> Grade" where
  "calculateGrade s =
     (if s \<ge> 90 then A
      else if s \<ge> 80 then B
      else if s \<ge> 70 then C
      else if s \<ge> 60 then D
      else F)"

section \<open>Path overlap\<close>

definition segments :: "string \<Rightarrow> string list" where
  "segments p = filter (\<lambda>s. s \<noteq> []) (split CHR ''/'' p)"

text \<open>The position loop of \<open>pathsOverlap\<close>, run over two segment lists of equal length.\<close>

fun overlapLoop :: "string list \<Rightarrow> string list \<Rightarrow> bool" where
  "overlapLoop (seg1 # r1) (seg2 # r2) =
     (if seg1 \<noteq> seg2 \<and> \<not> startsWith seg1 ''{'' \<and> \<not> startsWith seg2 ''{'' then False
      else overlapLoop r1 r2)"
| "overlapLoop _ _ = True"

definition pathsOverlap :: "string \<Rightarrow> string \<Rightarrow> bool" where
  "pathsOverlap path1 path2 =
     (let segments1 = segments path1; segments2 = segments path2
      in if length segments1 \<noteq> length segments2 then False
         else overlapLoop segments1 segments2)"

definition overlapIssue :: "string \<Rightarrow> string \<Rightarrow> Issue" where
  "overlapIssue ki kj =
     \<lparr> path = ki, operation = None, location = ''path'',
       description = ''Path overlaps with '' @ kj,
       severity = Medium,
       suggestion = ''Ensure paths are distinct and non-overlapping'',
       criterion = ''Paths & Operations'' \<rparr>"

text \<open>Inner loop (\<open>j\<close> from \<open>i + 1\<close>) and outer loop (\<open>i\<close>) of \<open>checkOverlappingPaths\<close>.\<close>

fun overlapInner :: "string \<Rightarrow> string list \<Rightarrow> Issue list" where
  "overlapInner ki [] = []"
| "overlapInner ki (kj # rest) =
     (if pathsOverlap ki kj then [overlapIssue ki kj] else []) @ overlapInner ki rest"

fun overlapOuter :: "string list \<Rightarrow> Issue list" where
  "overlapOuter [] = []"
| "overlapOuter (ki # rest) = overlapInner ki rest @ overlapOuter rest"


section \<open>Helper checks of the scoring engine (scoring/scoring-engine.ts)\<close>

text \<open>
  Every \<open>check...\<close> method pushes onto the caller's \<open>issues\<close> array; the model returns the
  issues it pushes, in order, and the caller appends them.
\<close>

definition mkIssue ::
  "string \<Rightarrow> string option \<Rightarrow> string \<Rightarrow> string \<Rightarrow> Severity \<Rightarrow> string \<Rightarrow> string \<Rightarrow> Issue" where
  "mkIssue p m l d sv sg c =
     \<lparr> path = p, operation = m, location = l, description = d, severity = sv,
       suggestion = sg, criterion = c \<rparr>"

text \<open>The method list every check iterates over.\<close>

definition methods :: "string list" where
  "methods = [''get'', ''post'', ''put'', ''patch'', ''delete'']"

text \<open>\<open>(pathItem as any)[method]\<close>.\<close>

definition methodOp :: "PathItem \<Rightarrow> string \<Rightarrow> Operation option" where
  "methodOp pathItem m =
     (if m = ''get'' then get_op pathItem
      else if m = ''put'' then put_op pathItem
      else if m = ''post'' then post_op pathItem
      else if m = ''delete'' then delete_op pathItem
      else if m = ''options'' then options_op pathItem
      else if m = ''head'' then head_op pathItem
      else if m = ''patch'' then patch_op pathItem
      else if m = ''trace'' then trace_op pathItem
      else None)"

definition validateSchemaTypes :: "string \<Rightarrow> Schema option \<Rightarrow> error + Issue list" where
  "validateSchemaTypes schemaName schema =
     (case schema of
        None \<Rightarrow> Inl TypeError
      | Some s \<Rightarrow> Inr (
          (if \<not> present (schema_type s) \<and> \<not> present (schema_ref s) \<and> \<not> present (allOf s)
               \<and> \<not> present (oneOf s) \<and> \<not> present (anyOf s)
           then [mkIssue (''/components/schemas/'' @ schemaName) None ''schema''
                   (''Schema '' @ dquote @ schemaName @ dquote @ '' lacks type definition'') Medium
                   ''Specify a type (object, string, number, etc.) for the schema''
                   ''Schema & Types'']
           else []) @
          (if schema_type s = Some (JStr ''object'') \<and> \<not> present (properties s)
               \<and> \<not> present (additionalProperties s)
           then [mkIssue (''/components/schemas/'' @ schemaName) None ''schema''
                   (''Object schema '' @ dquote @ schemaName @ dquote @ '' has no defined properties'') Medium
                   ''Define properties for object schemas or use additionalProperties''
                   ''Schema & Types'']
           else [])))"

definition hasSchemaReference :: "ContentObject option \<Rightarrow> bool" where
  "hasSchemaReference obj =
     (case obj of
        None \<Rightarrow> False
      | Some b \<Rightarrow>
          if present (co_schema b) then True
          else (case content b of
                  None \<Rightarrow> False
                | Some c \<Rightarrow>
                    list_ex (\<lambda>contentType. case contentType of None \<Rightarrow> False
                                            | Some mt \<Rightarrow> present (mt_schema mt)) (map snd c)))"

definition operationSchemaIssues :: "string \<Rightarrow> string \<Rightarrow> Operation \<Rightarrow> Issue list" where
  "operationSchemaIssues p method opr =
     (if requestBody opr \<noteq> None \<and> \<not> hasSchemaReference (requestBody opr)
      then [mkIssue p (Some method) ''requestBody''
              ''Request body lacks proper schema definition'' Medium
              ''Define schema for request body content'' ''Schema & Types'']
      else []) @
     (case responses opr of
        None \<Rightarrow> []
      | Some rs \<Rightarrow>
          concat (map (\<lambda>(statusCode, response).
            if response \<noteq> None \<and> \<not> hasSchemaReference response
            then [mkIssue p (Some method) (''responses.'' @ statusCode)
                    (''Response '' @ statusCode @ '' lacks proper schema definition'') Medium
                    ''Define schema for response content'' ''Schema & Types'']
            else []) rs))"

definition checkOperationSchemas :: "OpenAPISpec \<Rightarrow> Issue list" where
  "checkOperationSchemas spec =
     (case paths spec of
        None \<Rightarrow> []
      | Some ps \<Rightarrow>
          concat (map (\<lambda>(p, pathItem).
            concat (map (\<lambda>method.
              case methodOp pathItem method of
                None \<Rightarrow> []
              | Some opr \<Rightarrow> operationSchemaIssues p method opr) methods)) ps))"

definition paramName :: "Parameter \<Rightarrow> string" where
  "paramName param = (case param_name param of None \<Rightarrow> ''undefined'' | Some n \<Rightarrow> n)"

definition parameterIssues :: "string \<Rightarrow> string \<Rightarrow> Parameter option \<Rightarrow> error + Issue list" where
  "parameterIssues p method param =
     (case param of
        None \<Rightarrow> Inl TypeError
      | Some q \<Rightarrow> Inr (
          if \<not> present (param_description q)
          then [mkIssue p (Some method) (''parameters.'' @ paramName q)
                  (''Parameter '' @ dquote @ paramName q @ dquote @ '' lacks description'') Low
                  ''Add description to explain the parameter purpose''
                  ''Descriptions & Documentation'']
          else []))"

definition operationDocumentation :: "string \<Rightarrow> string \<Rightarrow> Operation \<Rightarrow> error + Issue list" where
  "operationDocumentation p method opr =
     (case (case parameters opr of
              None \<Rightarrow> Inr []
            | Some params \<Rightarrow> collect (parameterIssues p method) params) of
        Inl e \<Rightarrow> Inl e
      | Inr paramIssues \<Rightarrow> Inr (
          (if \<not> nonempty (summary opr) \<and> \<not> nonempty (op_description opr)
           then [mkIssue p (Some method) ''operation''
                   ''Operation lacks summary and description'' Medium
                   ''Add summary and/or description to explain the operation''
                   ''Descriptions & Documentation'']
           else []) @ paramIssues))"

definition checkPathDocumentation :: "string \<Rightarrow> PathItem \<Rightarrow> error + Issue list" where
  "checkPathDocumentation p pathItem =
     collect (\<lambda>method.
       case methodOp pathItem method of
         None \<Rightarrow> Inr []
       | Some opr \<Rightarrow> operationDocumentation p method opr) methods"

definition checkPathNaming :: "(string \<times> PathItem) list \<Rightarrow> Issue list" where
  "checkPathNaming ps =
     concat (map (\<lambda>p.
       (if includesChar p CHR ''_''
        then [mkIssue p None ''path''
                ''Path uses underscores, consider using hyphens for consistency'' Low
                ''Use kebab-case (hyphens) instead of snake_case (underscores)''
                ''Paths & Operations'']
        else []) @
       (if endsWith p ''/'' \<and> p \<noteq> ''/''
        then [mkIssue p None ''path'' ''Path has trailing slash'' Low
                ''Remove trailing slash from path'' ''Paths & Operations'']
        else [])) (map fst ps))"

text \<open>
  The \<open>Map\<close> from resource name to its paths, in insertion order: a new resource goes to the
  end, a known one has the path appended to its list.
\<close>

fun addResource :: "(string \<times> string list) list \<Rightarrow> string \<Rightarrow> string \<Rightarrow> (string \<times> string list) list" where
  "addResource [] r p = [(r, [p])]"
| "addResource ((k, v) # rest) r p =
     (if k = r then (k, v @ [p]) # rest else (k, v) # addResource rest r p)"

definition groupResources :: "string list \<Rightarrow> (string \<times> string list) list" where
  "groupResources keys =
     foldl (\<lambda>resources p.
       let segs = filter (\<lambda>s. s \<noteq> [] \<and> \<not> startsWith s ''{'') (split CHR ''/'' p)
       in if length segs > 0 then addResource resources (last segs) p else resources) [] keys"

text \<open>
  The loop body over the resources. \<open>paths[path]\<close> is read by key; \<open>Object.keys\<close> of a missing
  entry would throw.
\<close>

definition crudIssues :: "(string \<times> PathItem) list \<Rightarrow> string \<times> string list \<Rightarrow> error + Issue list" where
  "crudIssues ps entry =
     (case entry of (resource, resourcePaths) \<Rightarrow>
        (case resourcePaths of
           [p] \<Rightarrow>
             (case map_of ps p of
                None \<Rightarrow> Inl TypeError
              | Some pathItem \<Rightarrow> Inr (
                  if length (filter (\<lambda>k. methodOp pathItem k \<noteq> None) methods) = 1
                  then [mkIssue p None ''operations''
                          (''Resource '' @ dquote @ resource @ dquote @ '' only has one operation'') Low
                          ''Consider implementing full CRUD operations for resources''
                          ''Paths & Operations'']
                  else []))
         | _ \<Rightarrow> Inr []))"

definition checkCrudConsistency :: "(string \<times> PathItem) list \<Rightarrow> error + Issue list" where
  "checkCrudConsistency ps = collect (crudIssues ps) (groupResources (map fst ps))"

definition checkOverlappingPaths :: "(string \<times> PathItem) list \<Rightarrow> Issue list" where
  "checkOverlappingPaths ps = overlapOuter (map fst ps)"

text \<open>
  \<open>checkMethodSpecificResponses\<close> reads \<open>Object.keys(operation.responses)\<close>; its only caller
  has tested \<open>operation.responses\<close>, so the model passes the mapping.
\<close>

definition checkMethodSpecificResponses ::
  "string \<Rightarrow> string \<Rightarrow> (string \<times> ContentObject option) list \<Rightarrow> Issue list" where
  "checkMethodSpecificResponses p method rs =
     (let responseCodes = map fst rs
      in if method = ''post'' then
           (if ''201'' \<notin> set responseCodes \<and> ''200'' \<notin> set responseCodes
            then [mkIssue p (Some method) ''responses''
                    ''POST operation should typically return 201 (Created) or 200'' Low
                    ''Consider using 201 for resource creation'' ''Response Codes'']
            else [])
         else if method = ''delete'' then
           (if ''204'' \<notin> set responseCodes \<and> ''200'' \<notin> set responseCodes
            then [mkIssue p (Some method) ''responses''
                    ''DELETE operation should typically return 204 (No Content) or 200'' Low
                    ''Consider using 204 for successful deletion with no content''
                    ''Response Codes'']
            else [])
         else [])"

definition operationResponses :: "string \<Rightarrow> string \<Rightarrow> (string \<times> ContentObject option) list \<Rightarrow> Issue list" where
  "operationResponses p method rs =
     (let responseCodes = map fst rs;
          hasSuccess = list_ex (\<lambda>code. startsWith code ''2'' \<or> code = ''default'') responseCodes;
          hasClientError = list_ex (\<lambda>code. startsWith code ''4'') responseCodes;
          hasServerError = list_ex (\<lambda>code. startsWith code ''5'') responseCodes
      in (if \<not> hasSuccess
          then [mkIssue p (Some method) ''responses'' ''No success response (2xx) defined'' High
                  ''Define at least one 2xx success response'' ''Response Codes'']
          else []) @
         (if \<not> hasClientError \<and> \<not> hasServerError
          then [mkIssue p (Some method) ''responses'' ''No error responses (4xx/5xx) defined''
                  Medium ''Define appropriate error responses (400, 404, 500, etc.)''
                  ''Response Codes'']
          else []) @
         checkMethodSpecificResponses p method rs)"

definition checkOperationResponses :: "string \<Rightarrow> PathItem \<Rightarrow> Issue list" where
  "checkOperationResponses p pathItem =
     concat (map (\<lambda>method.
       case methodOp pathItem method of
         None \<Rightarrow> []
       | Some opr \<Rightarrow>
           (case responses opr of
              None \<Rightarrow> []
            | Some rs \<Rightarrow> operationResponses p method rs)) methods)"

definition hasExamplesInContent :: "ContentObject option \<Rightarrow> bool" where
  "hasExamplesInContent obj =
     (case obj of
        None \<Rightarrow> False
      | Some b \<Rightarrow>
          if present (co_example b) \<or> present (co_examples b) then True
          else (case content b of
                  None \<Rightarrow> False
                | Some c \<Rightarrow>
                    list_ex (\<lambda>contentType. case contentType of None \<Rightarrow> False
                               | Some mt \<Rightarrow> present (mt_example mt) \<or> present (mt_examples mt))
                      (map snd c)))"

definition operationHasExamples :: "Operation \<Rightarrow> bool" where
  "operationHasExamples opr =
     (let hasExamples0 = False;
          hasExamples1 = (if requestBody opr \<noteq> None
                          then hasExamplesInContent (requestBody opr) else hasExamples0)
      in (case responses opr of
            None \<Rightarrow> hasExamples1
          | Some rs \<Rightarrow> if list_ex hasExamplesInContent (map snd rs) then True else hasExamples1))"

definition checkExamples :: "string \<Rightarrow> PathItem \<Rightarrow> Issue list" where
  "checkExamples p pathItem =
     concat (map (\<lambda>method.
       case methodOp pathItem method of
         None \<Rightarrow> []
       | Some opr \<Rightarrow>
           if \<not> operationHasExamples opr
           then [mkIssue p (Some method) ''examples'' ''Operation lacks examples'' Low
                   ''Add examples to request/response bodies for better documentation''
                   ''Examples & Samples'']
           else []) methods)"

text \<open>\<open>x && x.length > 0\<close> on an optional array.\<close>

definition nonEmptyArray :: "'a list option \<Rightarrow> bool" where
  "nonEmptyArray xs = (case xs of None \<Rightarrow> False | Some l \<Rightarrow> length l > 0)"

definition checkOperationSecurity :: "OpenAPISpec \<Rightarrow> Issue list" where
  "checkOperationSecurity spec =
     (case paths spec of
        None \<Rightarrow> []
      | Some ps \<Rightarrow>
          concat (map (\<lambda>(p, pathItem).
            concat (map (\<lambda>method.
              case methodOp pathItem method of
                None \<Rightarrow> []
              | Some opr \<Rightarrow>
                  (let hasGlobalSecurity = nonEmptyArray (globalSecurity spec);
                       hasOperationSecurity = nonEmptyArray (op_security opr)
                   in if \<not> hasGlobalSecurity \<and> \<not> hasOperationSecurity
                      then [mkIssue p (Some method) ''security''
                              ''Operation has no security requirements'' Medium
                              ''Define security requirements for the operation'' ''Security'']
                      else [])) methods)) ps))"

text \<open>\<open>Set.add\<close>, keeping insertion order.\<close>

definition setAdd :: "string list \<Rightarrow> string \<Rightarrow> string list" where
  "setAdd s x = (if x \<in> set s then s else s @ [x])"

text \<open>The operations of a document that the checks visit, in visiting order.\<close>

definition visitedOperations :: "(string \<times> PathItem) list \<Rightarrow> Operation list" where
  "visitedOperations ps =
     concat (map (\<lambda>(p, pathItem).
       concat (map (\<lambda>method. case methodOp pathItem method of None \<Rightarrow> [] | Some opr \<Rightarrow> [opr])
                 methods)) ps)"

definition checkTagsUsage :: "OpenAPISpec \<Rightarrow> Issue list" where
  "checkTagsUsage spec =
     (let definedTags = (case tags spec of None \<Rightarrow> [] | Some ts \<Rightarrow> map tag_name ts)
      in case paths spec of
           None \<Rightarrow> []
         | Some ps \<Rightarrow>
             (let usedTags = foldl (\<lambda>used opr.
                                case op_tags opr of None \<Rightarrow> used
                                | Some ts \<Rightarrow> foldl setAdd used ts) [] (visitedOperations ps);
                  operationsWithoutTags =
                    length (filter (\<lambda>opr. \<not> nonEmptyArray (op_tags opr))
                              (visitedOperations ps))
              in concat (map (\<lambda>usedTag.
                   if usedTag \<notin> set definedTags
                   then [mkIssue ''/tags'' None ''tags''
                           (''Tag '' @ dquote @ usedTag @ dquote @ '' is used but not defined'') Low
                           ''Define all tags in the tags array with descriptions''
                           ''Best Practices'']
                   else []) usedTags) @
                 (if operationsWithoutTags > 0
                  then [mkIssue ''/paths'' None ''operations''
                          (showNat operationsWithoutTags @ '' operations are not tagged'') Low
                          ''Add tags to operations for better organization'' ''Best Practices'']
                  else [])))"

definition checkComponentReuse :: "OpenAPISpec \<Rightarrow> Issue list" where
  "checkComponentReuse spec =
     (if components spec = None
      then [mkIssue ''/components'' None ''components'' ''No components defined for reuse'' Low
              ''Extract common schemas, responses, and parameters to components''
              ''Best Practices'']
      else [])"

definition countOperations :: "OpenAPISpec \<Rightarrow> nat" where
  "countOperations spec =
     (case paths spec of
        None \<Rightarrow> 0
      | Some ps \<Rightarrow>
          foldl (\<lambda>count (p, pathItem).
            foldl (\<lambda>count method. if methodOp pathItem method \<noteq> None then count + 1 else count)
              count [''get'', ''post'', ''put'', ''patch'', ''delete'', ''options'', ''head'', ''trace''])
            0 ps)"

section \<open>The seven criteria\<close>

text \<open>
  Each \<open>score...\<close> method starts from the configured weight, pushes issues (four of the
  methods also subtract a fixed amount at once for their document-level issues) and ends the
  same way: \<open>const deduction = this.calculateDeduction(issues); score = Math.max(0, score -
  deduction);\<close> and the result object with \<open>maxScore\<close> and \<open>weight\<close> the configured weight and
  \<open>weightedScore\<close> the score. \<open>finish\<close> is that common end.
\<close>

definition mkResult :: "string \<Rightarrow> rat \<Rightarrow> rat \<Rightarrow> Issue list \<Rightarrow> ScoreResult" where
  "mkResult c s w iss =
     \<lparr> res_criterion = c, res_score = s, maxScore = w, weight = w, weightedScore = s,
       issues = iss \<rparr>"

definition finish :: "string \<Rightarrow> rat \<Rightarrow> rat \<Rightarrow> Issue list \<Rightarrow> ScoreResult" where
  "finish c w score1 iss =
     (let deduction = calculateDeduction iss;
          score2 = max 0 (score1 - deduction)
      in mkResult c score2 w iss)"

definition noSchemas :: "OpenAPISpec \<Rightarrow> bool" where
  "noSchemas spec =
     (case components spec of
        None \<Rightarrow> True
      | Some c \<Rightarrow> (case schemas c of None \<Rightarrow> True | Some ss \<Rightarrow> length ss = 0))"

definition scoreSchemaTypes :: "ScoringConfig \<Rightarrow> OpenAPISpec \<Rightarrow> error + ScoreResult" where
  "scoreSchemaTypes config spec =
     (let score0 = schemaTypes (weights config);
          issues1 = (if noSchemas spec
                     then [mkIssue ''/components/schemas'' None ''components''
                             ''No reusable schemas defined in components'' Medium
                             ''Define reusable schemas in components/schemas to promote consistency''
                             ''Schema & Types'']
                     else []);
          score1 = (if noSchemas spec then score0 - 5 else score0)
      in bindE (case components spec of
                  None \<Rightarrow> Inr []
                | Some c \<Rightarrow> (case schemas c of
                               None \<Rightarrow> Inr []
                             | Some ss \<Rightarrow> collect (\<lambda>(schemaName, schema).
                                            validateSchemaTypes schemaName schema) ss))
           (\<lambda>issues2.
              Inr (finish ''Schema & Types'' (schemaTypes (weights config)) score1
                     (issues1 @ issues2 @ checkOperationSchemas spec))))"

definition scoreDocumentation :: "ScoringConfig \<Rightarrow> OpenAPISpec \<Rightarrow> error + ScoreResult" where
  "scoreDocumentation config spec =
     (let score0 = documentation (weights config)
      in case info spec of
           None \<Rightarrow> Inl TypeError
         | Some i \<Rightarrow>
             (let issues1 = (if \<not> nonempty (info_description i)
                             then [mkIssue ''/info'' None ''info.description''
                                     ''API description is missing'' Medium
                                     ''Add a comprehensive description of your API in info.description''
                                     ''Descriptions & Documentation'']
                             else []);
                  score1 = (if \<not> nonempty (info_description i) then score0 - 2 else score0)
              in bindE (case paths spec of
                          None \<Rightarrow> Inr []
                        | Some ps \<Rightarrow> collect (\<lambda>(p, pathItem). checkPathDocumentation p pathItem) ps)
                   (\<lambda>issues2.
                      Inr (finish ''Descriptions & Documentation'' (documentation (weights config))
                             score1 (issues1 @ issues2)))))"

definition scorePathsOperations :: "ScoringConfig \<Rightarrow> OpenAPISpec \<Rightarrow> error + ScoreResult" where
  "scorePathsOperations config spec =
     (let score0 = pathsOperations (weights config)
      in case paths spec of
           None \<Rightarrow>
             Inr (mkResult ''Paths & Operations'' 0 (pathsOperations (weights config))
                    [mkIssue ''/paths'' None ''paths'' ''No paths defined'' Critical
                       ''Define at least one path in your API specification''
                       ''Paths & Operations''])
         | Some ps \<Rightarrow>
             bindE (checkCrudConsistency ps)
               (\<lambda>crud.
                  Inr (finish ''Paths & Operations'' (pathsOperations (weights config)) score0
                         (checkPathNaming ps @ crud @ checkOverlappingPaths ps))))"

definition scoreResponseCodes :: "ScoringConfig \<Rightarrow> OpenAPISpec \<Rightarrow> ScoreResult" where
  "scoreResponseCodes config spec =
     (let score0 = responseCodes (weights config);
          iss = (case paths spec of
                   None \<Rightarrow> []
                 | Some ps \<Rightarrow> concat (map (\<lambda>(p, pathItem). checkOperationResponses p pathItem) ps))
      in finish ''Response Codes'' (responseCodes (weights config)) score0 iss)"

definition scoreExamples :: "ScoringConfig \<Rightarrow> OpenAPISpec \<Rightarrow> ScoreResult" where
  "scoreExamples config spec =
     (let score0 = examples (weights config);
          iss = (case paths spec of
                   None \<Rightarrow> []
                 | Some ps \<Rightarrow> concat (map (\<lambda>(p, pathItem). checkExamples p pathItem) ps))
      in finish ''Examples & Samples'' (examples (weights config)) score0 iss)"

definition noSecuritySchemes :: "OpenAPISpec \<Rightarrow> bool" where
  "noSecuritySchemes spec =
     (case components spec of
        None \<Rightarrow> True
      | Some c \<Rightarrow> (case securitySchemes c of None \<Rightarrow> True | Some ss \<Rightarrow> length ss = 0))"

definition scoreSecurity :: "ScoringConfig \<Rightarrow> OpenAPISpec \<Rightarrow> ScoreResult" where
  "scoreSecurity config spec =
     (let score0 = security (weights config);
          issues1 = (if noSecuritySchemes spec
                     then [mkIssue ''/components/securitySchemes'' None ''components''
                             ''No security schemes defined'' High
                             ''Define appropriate security schemes (OAuth2, API Key, etc.)''
                             ''Security'']
                     else []);
          score1 = (if noSecuritySchemes spec then score0 - 5 else score0);
          issues2 = (if \<not> nonEmptyArray (globalSecurity spec)
                     then [mkIssue ''/security'' None ''root''
                             ''No global security requirements defined'' Medium
                             ''Define global security requirements or ensure operations have individual security''
                             ''Security'']
                     else []);
          score2 = (if \<not> nonEmptyArray (globalSecurity spec) then score1 - 3 else score1);
          issues3 = (if paths spec \<noteq> None then checkOperationSecurity spec else [])
      in finish ''Security'' (security (weights config)) score2 (issues1 @ issues2 @ issues3))"

definition scoreBestPractices :: "ScoringConfig \<Rightarrow> OpenAPISpec \<Rightarrow> error + ScoreResult" where
  "scoreBestPractices config spec =
     (let score0 = bestPractices (weights config)
      in case info spec of
           None \<Rightarrow> Inl TypeError
         | Some i \<Rightarrow>
             (let issues1 = (if version i = [] \<or> version i = ''1.0.0''
                             then [mkIssue ''/info/version'' None ''info''
                                     ''API version should be meaningful, not default'' Low
                                     ''Use semantic versioning (e.g., 1.2.3) or date-based versioning''
                                     ''Best Practices'']
                             else []);
                  score1 = (if version i = [] \<or> version i = ''1.0.0'' then score0 - 1 else score0);
                  issues2 = (if \<not> nonEmptyArray (servers spec)
                             then [mkIssue ''/servers'' None ''root'' ''No servers defined'' Medium
                                     ''Define at least one server URL'' ''Best Practices'']
                             else []);
                  score2 = (if \<not> nonEmptyArray (servers spec) then score1 - 2 else score1);
                  issues3 = (if paths spec \<noteq> None then checkTagsUsage spec else [])
              in Inr (finish ''Best Practices'' (bestPractices (weights config)) score2
                        (issues1 @ issues2 @ issues3 @ checkComponentReuse spec))))"

section \<open>The report\<close>

text \<open>\<open>Math.round(x * 100) / 100\<close>; \<open>Math.round\<close> rounds halves up.\<close>

definition round2 :: "rat \<Rightarrow> rat" where
  "round2 x = of_int \<lfloor>x * 100 + 1 / 2\<rfloor> / 100"

definition countSeverity :: "Severity \<Rightarrow> Issue list \<Rightarrow> nat" where
  "countSeverity s iss = length (filter (\<lambda>i. severity i = s) iss)"

text \<open>
  \<open>score\<close> runs the seven criteria in order (an exception of one leaves \<open>score\<close> at once)
  and assembles the report from their results. The last argument is what
  \<open>new Date().toISOString()\<close> returns during the call.
\<close>

definition assembleReport :: "ScoreResult list \<Rightarrow> OpenAPISpec \<Rightarrow> string \<Rightarrow> ScoringReport" where
  "assembleReport rs spec now =
     (let overall = foldl (\<lambda>sum result. sum + weightedScore result) 0 rs;
          g = calculateGrade overall;
          allIssues = concat (map issues rs)
      in \<lparr> overallScore = round2 overall,
           grade = g,
           rep_maxScore = 100,
           results = rs,
           totalIssues = length allIssues,
           summary_counts =
             \<lparr> criticalIssues = countSeverity Critical allIssues,
               highIssues = countSeverity High allIssues,
               mediumIssues = countSeverity Medium allIssues,
               lowIssues = countSeverity Low allIssues \<rparr>,
           timestamp = now,
           specInfo =
             \<lparr> si_title = (case info spec of None \<Rightarrow> ''Unknown''
                            | Some i \<Rightarrow> if title i = [] then ''Unknown'' else title i),
               si_version = (case info spec of None \<Rightarrow> ''Unknown''
                              | Some i \<Rightarrow> if version i = [] then ''Unknown'' else version i),
               pathCount = (case paths spec of None \<Rightarrow> 0 | Some ps \<Rightarrow> length ps),
               operationCount = countOperations spec \<rparr> \<rparr>)"

definition score :: "ScoringConfig \<Rightarrow> OpenAPISpec \<Rightarrow> string \<Rightarrow> error + ScoringReport" where
  "score config spec now =
     bindE (scoreSchemaTypes config spec) (\<lambda>r1.
     bindE (scoreDocumentation config spec) (\<lambda>r2.
     bindE (scorePathsOperations config spec) (\<lambda>r3.
     let r4 = scoreResponseCodes config spec;
         r5 = scoreExamples config spec;
         r6 = scoreSecurity config spec
     in bindE (scoreBestPractices config spec) (\<lambda>r7.
     Inr (assembleReport [r1, r2, r3, r4, r5, r6, r7] spec now)))))"

section \<open>Construction\<close>

text \<open>
  The constructor spreads its argument over an object literal holding the default \<open>criteria\<close>
  and \<open>weights\<close>: a top-level property of the argument replaces the default one as a whole.
  \<open>WeightsObject\<close> is a weights object as JavaScript may pass it, with any of its properties
  missing; \<open>typedWeights\<close> reads it at the declared type, where all seven are numbers.
\<close>

record WeightsObject =
  o_schemaTypes :: "rat option"
  o_documentation :: "rat option"
  o_pathsOperations :: "rat option"
  o_responseCodes :: "rat option"
  o_examples :: "rat option"
  o_security :: "rat option"
  o_bestPractices :: "rat option"

record ConfigArgument =
  arg_criteria :: "ScoringCriteria list option"
  arg_weights :: "WeightsObject option"

record EngineConfig =
  ec_criteria :: "ScoringCriteria list"
  ec_weights :: WeightsObject

definition defaultCriteria :: "ScoringCriteria list" where
  "defaultCriteria =
     [\<lparr> c_name = ''Schema & Types'', c_weight = 20, c_maxScore = 20 \<rparr>,
      \<lparr> c_name = ''Descriptions & Documentation'', c_weight = 20, c_maxScore = 20 \<rparr>,
      \<lparr> c_name = ''Paths & Operations'', c_weight = 15, c_maxScore = 15 \<rparr>,
      \<lparr> c_name = ''Response Codes'', c_weight = 15, c_maxScore = 15 \<rparr>,
      \<lparr> c_name = ''Examples & Samples'', c_weight = 10, c_maxScore = 10 \<rparr>,
      \<lparr> c_name = ''Security'', c_weight = 10, c_maxScore = 10 \<rparr>,
      \<lparr> c_name = ''Best Practices'', c_weight = 10, c_maxScore = 10 \<rparr>]"

definition defaultWeights :: WeightsObject where
  "defaultWeights =
     \<lparr> o_schemaTypes = Some 20, o_documentation = Some 20, o_pathsOperations = Some 15,
       o_responseCodes = Some 15, o_examples = Some 10, o_security = Some 10,
       o_bestPractices = Some 10 \<rparr>"

definition constructor :: "ConfigArgument option \<Rightarrow> EngineConfig" where
  "constructor config =
     (case config of
        None \<Rightarrow> \<lparr> ec_criteria = defaultCriteria, ec_weights = defaultWeights \<rparr>
      | Some c \<Rightarrow>
          \<lparr> ec_criteria = (case arg_criteria c of None \<Rightarrow> defaultCriteria | Some cr \<Rightarrow> cr),
            ec_weights = (case arg_weights c of None \<Rightarrow> defaultWeights | Some w \<Rightarrow> w) \<rparr>)"

definition typedWeights :: "WeightsObject \<Rightarrow> Weights option" where
  "typedWeights w =
     (case (o_schemaTypes w, o_documentation w, o_pathsOperations w, o_responseCodes w,
            o_examples w, o_security w, o_bestPractices w) of
        (Some a, Some b, Some c, Some d, Some e, Some f, Some g) \<Rightarrow>
          Some \<lparr> schemaTypes = a, documentation = b, pathsOperations = c, responseCodes = d,
                 examples = e, security = f, bestPractices = g \<rparr>
      | _ \<Rightarrow> None)"

definition typedConfig :: "EngineConfig \<Rightarrow> ScoringConfig option" where
  "typedConfig ec =
     (case typedWeights (ec_weights ec) of
        None \<Rightarrow> None
      | Some w \<Rightarrow> Some \<lparr> criteria = ec_criteria ec, weights = w \<rparr>)"

section \<open>Notions used to state the properties\<close>

text \<open>All pairs of positions \<open>i < j\<close> of a list, in the order the two nested loops visit them.\<close>

fun orderedPairs :: "'a list \<Rightarrow> ('a \<times> 'a) list" where
  "orderedPairs [] = []"
| "orderedPairs (k # ks) = map (Pair k) ks @ orderedPairs ks"

text \<open>The order of the grades, \<open>F\<close> lowest.\<close>

definition gradeRank :: "Grade \<Rightarrow> nat" where
  "gradeRank g = (case g of F \<Rightarrow> 0 | D \<Rightarrow> 1 | C \<Rightarrow> 2 | B \<Rightarrow> 3 | A \<Rightarrow> 4)"

section \<open>Example documents\<close>

text \<open>Objects with every optional property absent.\<close>

definition emptyOperation :: Operation where
  "emptyOperation =
     \<lparr> op_tags = None, summary = None, op_description = None, parameters = None,
       requestBody = None, responses = None, op_security = None \<rparr>"

definition emptyPathItem :: PathItem where
  "emptyPathItem =
     \<lparr> get_op = None, put_op = None, post_op = None, delete_op = None,
       options_op = None, head_op = None, patch_op = None, trace_op = None \<rparr>"

definition emptyContent :: ContentObject where
  "emptyContent = \<lparr> co_schema = None, co_example = None, co_examples = None, content = None \<rparr>"

text \<open>The document of the test "should score a minimal valid spec".\<close>

definition minimalSpec :: OpenAPISpec where
  "minimalSpec =
     \<lparr> openapi = ''3.0.0'',
       info = Some \<lparr> title = ''Test API'', version = ''1.0.0'', info_description = None \<rparr>,
       servers = None,
       paths = Some [(''/users'',
                emptyPathItem\<lparr> get_op :=
                  Some (emptyOperation\<lparr> responses := Some [(''200'', Some emptyContent)] \<rparr>) \<rparr>)],
       components = None, globalSecurity = None, tags = None \<rparr>"

text \<open>The configuration of \<open>new ScoringEngine()\<close>, at its declared type.\<close>

definition defaultConfig :: ScoringConfig where
  "defaultConfig =
     \<lparr> criteria = defaultCriteria,
       weights = \<lparr> schemaTypes = 20, documentation = 20, pathsOperations = 15,
                   responseCodes = 15, examples = 10, security = 10, bestPractices = 10 \<rparr> \<rparr>"

text \<open>Three path templates; the first two differ only in the name of their parameter.\<close>

definition usersPaths :: "(string \<times> PathItem) list" where
  "usersPaths =
     [(''/users/{id}'', emptyPathItem), (''/users/{userId}'', emptyPathItem),
      (''/orders'', emptyPathItem)]"

definition nonNegativeWeights :: "Weights \<Rightarrow> bool" where
  "nonNegativeWeights w =
     (0 \<le> schemaTypes w \<and> 0 \<le> documentation w \<and> 0 \<le> pathsOperations w
      \<and> 0 \<le> responseCodes w \<and> 0 \<le> examples w \<and> 0 \<le> security w \<and> 0 \<le> bestPractices w)"

text \<open>A document with one well-formed reusable schema and an empty \<open>paths\<close> object.\<close>

definition schemaOnlySpec :: OpenAPISpec where
  "schemaOnlySpec =
     \<lparr> openapi = ''3.0.0'',
       info = Some \<lparr> title = ''Test'', version = ''2.1.0'', info_description = Some ''A test API'' \<rparr>,
       servers = None,
       paths = Some [],
       components = Some \<lparr> schemas = Some [(''User'',
                        Some \<lparr> schema_type = Some (JStr ''object''), schema_ref = None,
                               allOf = None, oneOf = None, anyOf = None,
                               properties = Some JObj, additionalProperties = None \<rparr>)],
                      securitySchemes = None \<rparr>,
       globalSecurity = None, tags = None \<rparr>"

text \<open>Configurations that put the whole budget on Schema & Types: 89.996 points, and 90.\<close>

definition schemaWeightConfig :: "rat \<Rightarrow> ScoringConfig" where
  "schemaWeightConfig x =
     \<lparr> criteria = defaultCriteria,
       weights = \<lparr> schemaTypes = x, documentation = 0, pathsOperations = 0,
                   responseCodes = 0, examples = 0, security = 0, bestPractices = 0 \<rparr> \<rparr>"

text \<open>A weights object that sets one weight only, and one that sets all seven to 5.\<close>

definition partialWeights :: WeightsObject where
  "partialWeights =
     \<lparr> o_schemaTypes = Some 30, o_documentation = None, o_pathsOperations = None,
       o_responseCodes = None, o_examples = None, o_security = None, o_bestPractices = None \<rparr>"

definition fiveWeights :: WeightsObject where
  "fiveWeights =
     \<lparr> o_schemaTypes = Some 5, o_documentation = Some 5, o_pathsOperations = Some 5,
       o_responseCodes = Some 5, o_examples = Some 5, o_security = Some 5,
       o_bestPractices = Some 5 \<rparr>"

definition configuredWeights :: "WeightsObject \<Rightarrow> rat option list" where
  "configuredWeights w =
     [o_schemaTypes w, o_documentation w, o_pathsOperations w, o_responseCodes w,
      o_examples w, o_security w, o_bestPractices w]"

section \<open>Unfolding the engine on a concrete document\<close>

lemmas check_defs =
  mkIssue_def mkResult_def methods_def methodOp_def validateSchemaTypes_def
  hasSchemaReference_def operationSchemaIssues_def checkOperationSchemas_def paramName_def
  parameterIssues_def operationDocumentation_def checkPathDocumentation_def
  checkPathNaming_def groupResources_def crudIssues_def checkCrudConsistency_def
  checkOverlappingPaths_def checkMethodSpecificResponses_def operationResponses_def
  checkOperationResponses_def hasExamplesInContent_def operationHasExamples_def
  checkExamples_def nonEmptyArray_def checkOperationSecurity_def setAdd_def
  visitedOperations_def checkTagsUsage_def checkComponentReuse_def countOperations_def
  present_def nonempty_def startsWith_def endsWith_def includesChar_def segments_def
  pathsOverlap_def overlapIssue_def dquote_def penalty_def calculateDeduction_def
  noSchemas_def noSecuritySchemes_def bindE_def finish_def

lemmas score_defs =
  scoreSchemaTypes_def scoreDocumentation_def scorePathsOperations_def
  scoreResponseCodes_def scoreExamples_def scoreSecurity_def scoreBestPractices_def

lemmas report_defs =
  score_def assembleReport_def calculateGrade_def round2_def countSeverity_def
  showNat.simps digit_def

lemmas example_defs =
  emptyOperation_def emptyPathItem_def emptyContent_def minimalSpec_def defaultConfig_def
  schemaOnlySpec_def schemaWeightConfig_def usersPaths_def


section \<open>Deduction and the common end of the criteria\<close>

lemma foldl_plus_sum_list:
  "foldl (\<lambda>s x. s + f x) a xs = a + sum_list (map f xs)" for a :: rat
  by (induction xs arbitrary: a) (auto simp: algebra_simps)

lemma calculateDeduction_sum:
  "calculateDeduction iss = sum_list (map (\<lambda>i. penalty (severity i)) iss)"
  by (simp add: calculateDeduction_def foldl_plus_sum_list)

lemma penalty_pos: "0 < penalty s"
  by (cases s) (simp_all add: penalty_def)

lemma calculateDeduction_nonneg: "0 \<le> calculateDeduction iss"
  unfolding calculateDeduction_sum
  by (rule sum_list_nonneg) (auto simp: less_imp_le[OF penalty_pos])

lemma finish_fields [simp]:
  "res_criterion (finish c w s iss) = c"
  "res_score (finish c w s iss) = max 0 (s - calculateDeduction iss)"
  "weightedScore (finish c w s iss) = max 0 (s - calculateDeduction iss)"
  "maxScore (finish c w s iss) = w"
  "weight (finish c w s iss) = w"
  "issues (finish c w s iss) = iss"
  by (simp_all add: finish_def mkResult_def Let_def)

lemma mkResult_fields [simp]:
  "res_criterion (mkResult c s w iss) = c"
  "res_score (mkResult c s w iss) = s"
  "weightedScore (mkResult c s w iss) = s"
  "maxScore (mkResult c s w iss) = w"
  "weight (mkResult c s w iss) = w"
  "issues (mkResult c s w iss) = iss"
  by (simp_all add: mkResult_def)

text \<open>The amount a method has subtracted at once before the deduction.\<close>

lemma scoreSchemaTypes_shape:
  assumes "scoreSchemaTypes config spec = Inr r"
  shows "r = finish ''Schema & Types'' (schemaTypes (weights config))
               (if noSchemas spec then schemaTypes (weights config) - 5
                else schemaTypes (weights config)) (issues r)"
  using assms unfolding scoreSchemaTypes_def bindE_def Let_def
  by (auto split: sum.splits split del: if_split)

lemma scoreDocumentation_shape:
  assumes "scoreDocumentation config spec = Inr r"
  shows "\<exists>i. info spec = Some i \<and>
           r = finish ''Descriptions & Documentation'' (documentation (weights config))
                 (if \<not> nonempty (info_description i) then documentation (weights config) - 2
                  else documentation (weights config)) (issues r)"
  using assms unfolding scoreDocumentation_def bindE_def Let_def
  by (auto split: sum.splits option.splits split del: if_split)

lemma scorePathsOperations_shape:
  assumes "scorePathsOperations config spec = Inr r"
  shows "(paths spec = None \<and> res_score r = 0 \<and> weightedScore r = 0
            \<and> weight r = pathsOperations (weights config)
            \<and> maxScore r = pathsOperations (weights config))
         \<or> r = finish ''Paths & Operations'' (pathsOperations (weights config))
                 (pathsOperations (weights config)) (issues r)"
  using assms unfolding scorePathsOperations_def bindE_def Let_def
  by (auto split: sum.splits option.splits split del: if_split)

lemma scoreResponseCodes_shape:
  "scoreResponseCodes config spec =
     finish ''Response Codes'' (responseCodes (weights config)) (responseCodes (weights config))
       (issues (scoreResponseCodes config spec))"
  by (simp add: scoreResponseCodes_def Let_def)

lemma scoreExamples_shape:
  "scoreExamples config spec =
     finish ''Examples & Samples'' (examples (weights config)) (examples (weights config))
       (issues (scoreExamples config spec))"
  by (simp add: scoreExamples_def Let_def)

lemma scoreSecurity_shape:
  "scoreSecurity config spec =
     finish ''Security'' (security (weights config))
       (if \<not> nonEmptyArray (globalSecurity spec)
        then (if noSecuritySchemes spec then security (weights config) - 5
              else security (weights config)) - 3
        else (if noSecuritySchemes spec then security (weights config) - 5
              else security (weights config)))
       (issues (scoreSecurity config spec))"
  by (simp add: scoreSecurity_def Let_def split del: if_split)

lemma scoreBestPractices_shape:
  assumes "scoreBestPractices config spec = Inr r"
  shows "\<exists>i. info spec = Some i \<and>
           r = finish ''Best Practices'' (bestPractices (weights config))
                 (if \<not> nonEmptyArray (servers spec)
                  then (if version i = [] \<or> version i = ''1.0.0''
                        then bestPractices (weights config) - 1
                        else bestPractices (weights config)) - 2
                  else (if version i = [] \<or> version i = ''1.0.0''
                        then bestPractices (weights config) - 1
                        else bestPractices (weights config)))
                 (issues r)"
  using assms unfolding scoreBestPractices_def bindE_def Let_def
  by (auto split: option.splits split del: if_split)

section \<open>The report\<close>

lemma score_Inr:
  assumes "score config spec now = Inr r"
  obtains r1 r2 r3 r7 where
    "scoreSchemaTypes config spec = Inr r1" "scoreDocumentation config spec = Inr r2"
    "scorePathsOperations config spec = Inr r3" "scoreBestPractices config spec = Inr r7"
    "r = assembleReport [r1, r2, r3, scoreResponseCodes config spec, scoreExamples config spec,
           scoreSecurity config spec, r7] spec now"
  using assms by (auto simp: score_def bindE_def Let_def split: sum.splits)

lemma assembleReport_fields:
  "results (assembleReport rs spec now) = rs"
  "overallScore (assembleReport rs spec now) = round2 (sum_list (map weightedScore rs))"
  "grade (assembleReport rs spec now) = calculateGrade (sum_list (map weightedScore rs))"
  "timestamp (assembleReport rs spec now) = now"
  by (simp_all add: assembleReport_def Let_def foldl_plus_sum_list)

lemma floor_rat_numeral: "\<lfloor>(numeral a :: rat) / numeral b\<rfloor> = numeral a div numeral b"
  using floor_divide_of_int_eq[of "numeral a" "numeral b", where ?'a = rat] by simp

lemma round2_close: "\<bar>round2 x - x\<bar> \<le> 1 / 200"
proof -
  define y where "y = \<lfloor>x * 100 + 1 / 2\<rfloor>"
  have a: "of_int y \<le> x * 100 + 1 / 2" unfolding y_def by (rule of_int_floor_le)
  have b: "x * 100 + 1 / 2 < of_int y + 1"
    unfolding y_def using floor_correct[of "x * 100 + 1 / 2"] by simp
  have "of_int y / 100 - x \<le> 1 / 200" using a by linarith
  moreover have "- (1 / 200) \<le> of_int y / 100 - x" using b by linarith
  ultimately have "\<bar>of_int y / 100 - x\<bar> \<le> 1 / 200" by linarith
  then show ?thesis by (simp add: round2_def y_def)
qed

lemma round2_two_decimals: "round2 (of_int k / 100) = of_int k / 100"
proof -
  have "\<lfloor>(of_int k :: rat) + 1 / 2\<rfloor> = k" by (simp add: floor_unique)
  then show ?thesis by (simp add: round2_def)
qed

lemma calculateGrade_mono: "s \<le> t \<Longrightarrow> gradeRank (calculateGrade s) \<le> gradeRank (calculateGrade t)"
  by (auto simp: calculateGrade_def gradeRank_def)

lemma calculateGrade_bands:
  "(90 \<le> s \<longrightarrow> calculateGrade s = A) \<and> (80 \<le> s \<and> s < 90 \<longrightarrow> calculateGrade s = B)
   \<and> (70 \<le> s \<and> s < 80 \<longrightarrow> calculateGrade s = C) \<and> (60 \<le> s \<and> s < 70 \<longrightarrow> calculateGrade s = D)
   \<and> (s < 60 \<longrightarrow> calculateGrade s = F)"
  by (auto simp: calculateGrade_def)


lemma schemaOnly_criteria:
  "scoreSchemaTypes (schemaWeightConfig x) schemaOnlySpec = Inr (mkResult ''Schema & Types'' (max 0 x) x [])"
  "weightedScore (scoreResponseCodes (schemaWeightConfig x) schemaOnlySpec) = 0"
  "weightedScore (scoreExamples (schemaWeightConfig x) schemaOnlySpec) = 0"
  "weightedScore (scoreSecurity (schemaWeightConfig x) schemaOnlySpec) = 0"
  "map_sum id weightedScore (scoreDocumentation (schemaWeightConfig x) schemaOnlySpec) = Inr 0"
  "map_sum id weightedScore (scorePathsOperations (schemaWeightConfig x) schemaOnlySpec) = Inr 0"
  "map_sum id weightedScore (scoreBestPractices (schemaWeightConfig x) schemaOnlySpec) = Inr 0"
  by (simp_all add: score_defs check_defs example_defs Let_def)

lemma schemaOnly_report:
  "map_sum id overallScore (score (schemaWeightConfig x) schemaOnlySpec now) = Inr (round2 (max 0 x))"
  "map_sum id grade (score (schemaWeightConfig x) schemaOnlySpec now) = Inr (calculateGrade (max 0 x))"
  using schemaOnly_criteria[of x]
  by (auto simp: score_def bindE_def Let_def assembleReport_fields mkResult_def split: sum.splits)

section \<open>Path overlap\<close>

lemma overlapLoop_all2:
  "length xs = length ys \<Longrightarrow>
   overlapLoop xs ys =
     list_all2 (\<lambda>a b. a = b \<or> startsWith a ''{'' \<or> startsWith b ''{'') xs ys"
  by (induction xs ys rule: list_induct2) auto

lemma overlapLoop_sym: "overlapLoop xs ys = overlapLoop ys xs"
  by (induction xs ys rule: overlapLoop.induct) auto

lemma pathsOverlap_sym: "pathsOverlap p q = pathsOverlap q p"
  using overlapLoop_sym[of "segments p" "segments q"] by (auto simp: pathsOverlap_def Let_def)

lemma pathsOverlap_iff:
  "pathsOverlap p q \<longleftrightarrow>
     (length (segments p) = length (segments q) \<and>
      (\<forall>n < length (segments p).
         segments p ! n = segments q ! n \<or> startsWith (segments p ! n) ''{''
           \<or> startsWith (segments q ! n) ''{''))"
  by (auto simp: pathsOverlap_def Let_def overlapLoop_all2 list_all2_conv_all_nth)

lemma overlapInner_eq:
  "overlapInner k ks =
     map (case_prod overlapIssue) (filter (case_prod pathsOverlap) (map (Pair k) ks))"
  by (induction ks) auto

lemma overlapOuter_eq:
  "overlapOuter ks =
     map (case_prod overlapIssue) (filter (case_prod pathsOverlap) (orderedPairs ks))"
  by (induction ks) (auto simp: overlapInner_eq)

lemma set_orderedPairs:
  "set (orderedPairs ks) = {(ks ! i, ks ! j) | i j. i < j \<and> j < length ks}"
proof (induction ks)
  case Nil
  then show ?case by simp
next
  case (Cons k ks)
  have "{((k # ks) ! i, (k # ks) ! j) | i j. i < j \<and> j < length (k # ks)}
        = Pair k ` set ks \<union> {(ks ! i, ks ! j) | i j. i < j \<and> j < length ks}" (is "?L = ?R")
  proof (rule set_eqI, rule iffI)
    fix x assume "x \<in> ?L"
    then obtain i j where x: "x = ((k # ks) ! i, (k # ks) ! j)"
      and ij: "i < j" "j < Suc (length ks)"
      by auto
    from ij obtain j' where j': "j = Suc j'" by (cases j) auto
    show "x \<in> ?R"
    proof (cases i)
      case 0
      with x j' ij show ?thesis by auto
    next
      case (Suc i')
      with x j' ij have "x = (ks ! i', ks ! j')" "i' < j'" "j' < length ks" by auto
      then show ?thesis by blast
    qed
  next
    fix x assume "x \<in> ?R"
    then show "x \<in> ?L"
    proof
      assume "x \<in> Pair k ` set ks"
      then obtain j where "j < length ks" "x = (k, ks ! j)" by (auto simp: in_set_conv_nth)
      then have "x = ((k # ks) ! 0, (k # ks) ! Suc j)" "0 < Suc j" "Suc j < length (k # ks)"
        by auto
      then show ?thesis by blast
    next
      assume "x \<in> {(ks ! i, ks ! j) | i j. i < j \<and> j < length ks}"
      then obtain i j where "x = (ks ! i, ks ! j)" "i < j" "j < length ks" by auto
      then have "x = ((k # ks) ! Suc i, (k # ks) ! Suc j)" "Suc i < Suc j"
        "Suc j < length (k # ks)" by auto
      then show ?thesis by blast
    qed
  qed
  with Cons show ?case by simp
qed

lemma orderedPairs_members:
  "p \<in> set (orderedPairs ks) \<Longrightarrow> fst p \<in> set ks \<and> snd p \<in> set ks"
  by (induction ks) auto

lemma distinct_orderedPairs: "distinct ks \<Longrightarrow> distinct (orderedPairs ks)"
proof (induction ks)
  case Nil
  then show ?case by simp
next
  case (Cons k ks)
  have "distinct (map (Pair k) ks)" using Cons.prems by (simp add: distinct_map inj_on_def)
  moreover have "set (map (Pair k) ks) \<inter> set (orderedPairs ks) = {}"
    using Cons.prems orderedPairs_members[of _ ks] by fastforce
  ultimately show ?case using Cons by simp
qed

lemma overlapIssue_inj: "overlapIssue a b = overlapIssue c d \<longleftrightarrow> a = c \<and> b = d"
  by (auto simp: overlapIssue_def)

lemma count_distinct:
  "distinct xs \<Longrightarrow> length (filter (\<lambda>p. p = y) xs) = (if y \<in> set xs then 1 else 0)"
  by (induction xs) auto

lemma count_either:
  "(\<And>x. \<not> (P x \<and> Q x)) \<Longrightarrow>
   length (filter (\<lambda>x. P x \<or> Q x) xs) = length (filter P xs) + length (filter Q xs)"
  by (induction xs) auto

lemma count_overlap_issue:
  assumes "distinct ks"
  shows "length (filter (\<lambda>x. x = overlapIssue a b) (overlapOuter ks)) =
           (if (a, b) \<in> set (orderedPairs ks) \<and> pathsOverlap a b then 1 else 0)"
proof -
  let ?ps = "filter (case_prod pathsOverlap) (orderedPairs ks)"
  have d: "distinct ?ps" using assms by (simp add: distinct_orderedPairs)
  have "filter (\<lambda>x. x = overlapIssue a b) (map (case_prod overlapIssue) ?ps)
        = map (case_prod overlapIssue) (filter (\<lambda>p. p = (a, b)) ?ps)"
    by (simp add: filter_map comp_def case_prod_beta overlapIssue_inj prod_eq_iff)
  moreover have "length (filter (\<lambda>p. p = (a, b)) ?ps) = (if (a, b) \<in> set ?ps then 1 else 0)"
    using d by (rule count_distinct)
  ultimately show ?thesis by (simp add: overlapOuter_eq)
qed

lemma orderedPairs_index:
  assumes "distinct ks" "i < length ks" "j < length ks"
  shows "(ks ! i, ks ! j) \<in> set (orderedPairs ks) \<longleftrightarrow> i < j"
proof
  assume "(ks ! i, ks ! j) \<in> set (orderedPairs ks)"
  then obtain a b where ab: "ks ! i = ks ! a" "ks ! j = ks ! b" "a < b" "b < length ks"
    by (auto simp: set_orderedPairs)
  with assms have "i = a" "j = b" by (auto simp: nth_eq_iff_index_eq)
  with ab show "i < j" by simp
next
  assume "i < j"
  with assms show "(ks ! i, ks ! j) \<in> set (orderedPairs ks)"
    by (auto simp: set_orderedPairs)
qed

text \<open>
  C5. \<open>pathsOverlap\<close> holds exactly when the two paths have the same number of (non-empty)
  segments and at every position the segments are equal or one of them starts with an
  opening brace; it is symmetric; for two different path keys of a document, the overlap
  check emits exactly one issue naming the two (in either order) when they overlap and none
  when they do not, and every issue it emits names such a pair, the earlier key as its path;
  \<open>/users/{id}\<close> and \<open>/users/{userId}\<close> overlap, \<open>/users\<close> and \<open>/orders\<close> do not.
\<close>

theorem pathsOverlap_pairs:
  assumes "distinct (map fst ps)" and "i < length ps" and "j < length ps" and "i \<noteq> j"
  shows "(pathsOverlap p q \<longleftrightarrow>
            (length (segments p) = length (segments q) \<and>
             (\<forall>n < length (segments p).
                segments p ! n = segments q ! n \<or> startsWith (segments p ! n) ''{''
                  \<or> startsWith (segments q ! n) ''{'')))
       \<and> pathsOverlap p q = pathsOverlap q p
       \<and> length (filter (\<lambda>x. x = overlapIssue (fst (ps ! i)) (fst (ps ! j))
                              \<or> x = overlapIssue (fst (ps ! j)) (fst (ps ! i)))
                   (checkOverlappingPaths ps))
           = (if pathsOverlap (fst (ps ! i)) (fst (ps ! j)) then 1 else 0)
       \<and> (\<forall>x \<in> set (checkOverlappingPaths ps).
             \<exists>a b. a < b \<and> b < length ps \<and> pathsOverlap (fst (ps ! a)) (fst (ps ! b))
                   \<and> x = overlapIssue (fst (ps ! a)) (fst (ps ! b)))
       \<and> pathsOverlap ''/users/{id}'' ''/users/{userId}''
       \<and> \<not> pathsOverlap ''/users'' ''/orders''"
proof -
  let ?ks = "map fst ps"
  let ?a = "fst (ps ! i)" and ?b = "fst (ps ! j)"
  have ki: "?ks ! i = ?a" and kj: "?ks ! j = ?b" using assms by simp_all
  have ne: "?a \<noteq> ?b"
    using assms ki kj by (metis length_map nth_eq_iff_index_eq)
  have mem_ab: "(?a, ?b) \<in> set (orderedPairs ?ks) \<longleftrightarrow> i < j"
    using orderedPairs_index[of ?ks i j] assms by simp
  have mem_ba: "(?b, ?a) \<in> set (orderedPairs ?ks) \<longleftrightarrow> j < i"
    using orderedPairs_index[of ?ks j i] assms by simp
  have excl: "\<And>x. \<not> (x = overlapIssue ?a ?b \<and> x = overlapIssue ?b ?a)"
    using ne by (auto simp: overlapIssue_inj)
  have "length (filter (\<lambda>x. x = overlapIssue ?a ?b \<or> x = overlapIssue ?b ?a) (overlapOuter ?ks))
        = length (filter (\<lambda>x. x = overlapIssue ?a ?b) (overlapOuter ?ks))
          + length (filter (\<lambda>x. x = overlapIssue ?b ?a) (overlapOuter ?ks))"
    by (rule count_either) (rule excl)
  also have "\<dots> = (if (?a, ?b) \<in> set (orderedPairs ?ks) \<and> pathsOverlap ?a ?b then 1 else 0)
          + (if (?b, ?a) \<in> set (orderedPairs ?ks) \<and> pathsOverlap ?b ?a then 1 else 0)"
    by (simp only: count_overlap_issue[OF assms(1)])
  also have "\<dots> = (if pathsOverlap ?a ?b then 1 else 0)"
    using mem_ab mem_ba assms(4) pathsOverlap_sym[of ?b ?a] by auto
  finally have count: "length (filter (\<lambda>x. x = overlapIssue ?a ?b \<or> x = overlapIssue ?b ?a)
                                 (checkOverlappingPaths ps))
                       = (if pathsOverlap ?a ?b then 1 else 0)"
    by (simp add: checkOverlappingPaths_def)
  have only: "\<forall>x \<in> set (checkOverlappingPaths ps).
             \<exists>a b. a < b \<and> b < length ps \<and> pathsOverlap (fst (ps ! a)) (fst (ps ! b))
                   \<and> x = overlapIssue (fst (ps ! a)) (fst (ps ! b))"
  proof
    fix x assume "x \<in> set (checkOverlappingPaths ps)"
    then obtain c d where cd: "(c, d) \<in> set (orderedPairs ?ks)" "pathsOverlap c d"
      "x = overlapIssue c d"
      by (auto simp: checkOverlappingPaths_def overlapOuter_eq)
    then obtain a b where "c = ?ks ! a" "d = ?ks ! b" "a < b" "b < length ?ks"
      by (auto simp: set_orderedPairs)
    with cd show "\<exists>a b. a < b \<and> b < length ps \<and> pathsOverlap (fst (ps ! a)) (fst (ps ! b))
                   \<and> x = overlapIssue (fst (ps ! a)) (fst (ps ! b))"
      by (intro exI[of _ a] exI[of _ b]) simp
  qed
  have ex1: "pathsOverlap ''/users/{id}'' ''/users/{userId}''"
    by (simp add: pathsOverlap_def segments_def startsWith_def)
  have ex2: "\<not> pathsOverlap ''/users'' ''/orders''"
    by (simp add: pathsOverlap_def segments_def startsWith_def)
  show ?thesis
    using pathsOverlap_iff[of p q] pathsOverlap_sym[of p q] count only ex1 ex2 by blast
qed

theorem pathsOverlap_pairs_witness:
  "length (filter (\<lambda>x. x = overlapIssue ''/users/{id}'' ''/users/{userId}''
                        \<or> x = overlapIssue ''/users/{userId}'' ''/users/{id}'')
             (checkOverlappingPaths usersPaths)) = 1
   \<and> length (checkOverlappingPaths usersPaths) = 1
   \<and> pathsOverlap ''/users/{userId}'' ''/users/{id}''"
proof -
  have d: "distinct (map fst usersPaths)" by (simp add: usersPaths_def)
  have o: "pathsOverlap ''/users/{id}'' ''/users/{userId}''"
    by (simp add: pathsOverlap_def segments_def startsWith_def)
  have n: "length (checkOverlappingPaths usersPaths) = 1"
    by (simp add: checkOverlappingPaths_def usersPaths_def pathsOverlap_def segments_def
        startsWith_def)
  from pathsOverlap_pairs[OF d, of 0 1 "''/users/{id}''" "''/users/{userId}''"] o n
  show ?thesis by (simp add: usersPaths_def)
qed


end
